theory Spec2Isabelle
  imports Main "HOL-Library.Word" "HOL-Library.AList"
begin

section \<open>The PKCE code-verifier generator\<close>

text \<open>
  \<^verbatim>\<open>generateCodeVerifier\<close> (src/unnamed/part_000). The browser is outside the function:
  whether \<^verbatim>\<open>window\<close> is defined is the argument \<open>window_defined\<close>, and the bytes that
  \<^verbatim>\<open>window.crypto.getRandomValues\<close> writes into the \<^verbatim>\<open>Uint8Array(len)\<close> are
  the argument \<open>random_byte\<close>: \<open>random_byte k\<close> is the byte at index \<open>k\<close>, so the array
  is any sequence of \<open>len\<close> bytes. The length argument is an integer-valued number
  (\<open>None\<close> when the caller leaves it out, which selects the default 43); a fractional
  number or NaN is not modelled.
\<close>

definition validChars :: string where
  "validChars = ''ABCDEFGHIJKLMNOPQRSTUVWXYZabcdefghijklmnopqrstuvwxyz0123456789-._~''"

text \<open>\<^verbatim>\<open>s[k]\<close> on a string: the character at index \<open>k\<close>, \<^verbatim>\<open>undefined\<close> (\<open>None\<close>)
  out of range.\<close>

definition js_index :: "string \<Rightarrow> int \<Rightarrow> char option" where
  "js_index s k = (if 0 \<le> k \<and> k < int (length s) then Some (s ! nat k) else None)"

text \<open>\<^verbatim>\<open>cv += x\<close> for \<open>x\<close> a one-character string or \<^verbatim>\<open>undefined\<close>: string
  concatenation converts \<^verbatim>\<open>undefined\<close> to the nine characters of its name.\<close>

definition js_append :: "string \<Rightarrow> char option \<Rightarrow> string" where
  "js_append cv x = (case x of Some c \<Rightarrow> cv @ [c] | None \<Rightarrow> cv @ ''undefined'')"

definition clampLength :: "int option \<Rightarrow> int" where
  "clampLength length_arg =
     (let len = (case length_arg of None \<Rightarrow> 43 | Some n \<Rightarrow> n);
          len = (if len < 43 then 43 else len);
          len = (if len > 128 then 128 else len)
      in len)"

definition randomArr :: "(nat \<Rightarrow> 8 word) \<Rightarrow> int \<Rightarrow> 8 word list" where
  "randomArr random_byte len = map random_byte [0..<nat len]"

definition generateCodeVerifier :: "bool \<Rightarrow> int option \<Rightarrow> (nat \<Rightarrow> 8 word) \<Rightarrow> string option" where
  "generateCodeVerifier window_defined length_arg random_byte =
     (if \<not> window_defined then None
      else
        let len = clampLength length_arg
        in Some (foldl (\<lambda>codeVerifier i. js_append codeVerifier (js_index validChars (uint i mod len)))
                   [] (randomArr random_byte len)))"

section \<open>JavaScript values\<close>

text \<open>
  The adapter's raw data is typed \<^verbatim>\<open>any\<close>: whatever the transport parsed from a JSON
  body. Numbers are integer-valued (ids, counts, HTTP status codes, timestamps); an
  object is the list of its properties, the first binding of a name being its value.
\<close>

datatype jsval = JUndefined | JNull | JBool bool | JNum int | JStr string
  | JArr "jsval list" | JObj "(string \<times> jsval) list"

record response =
  status :: int
  data :: jsval

text \<open>What a rejected promise carries (what \<^verbatim>\<open>throw\<close> throws): a \<^verbatim>\<open>TypeError\<close> of the
  language, an \<^verbatim>\<open>Error\<close> with its message, or the error of the HTTP client, whose
  \<^verbatim>\<open>response\<close> is absent when no response arrived.\<close>

datatype error = TypeError | Error string | AxiosError "response option"

definition andThen :: "error + 'a \<Rightarrow> ('a \<Rightarrow> error + 'b) \<Rightarrow> error + 'b" where
  "andThen r f = (case r of Inl e \<Rightarrow> Inl e | Inr x \<Rightarrow> f x)"

definition lookup_property :: "(string \<times> jsval) list \<Rightarrow> string \<Rightarrow> jsval" where
  "lookup_property fs name = (case map_of fs name of Some v \<Rightarrow> v | None \<Rightarrow> JUndefined)"

text \<open>
  \<^verbatim>\<open>v.name\<close>: a \<^verbatim>\<open>TypeError\<close> on \<^verbatim>\<open>undefined\<close> and \<^verbatim>\<open>null\<close>, the property of an
  object, \<^verbatim>\<open>undefined\<close> for a name the value does not have. Inherited methods are not
  data and are not modelled; of the names the adapter reads only \<^verbatim>\<open>values\<close> is one (on
  arrays), and \<^verbatim>\<open>getIssue\<close> reads it only after \<^verbatim>\<open>size > 0\<close>, which no array
  satisfies.
\<close>

fun getProp :: "jsval \<Rightarrow> string \<Rightarrow> error + jsval" where
  "getProp JUndefined name = Inl TypeError"
| "getProp JNull name = Inl TypeError"
| "getProp (JObj fs) name = Inr (lookup_property fs name)"
| "getProp v name = Inr JUndefined"

fun show_nat :: "nat \<Rightarrow> string" where
  "show_nat n =
     (if n < 10 then [''0123456789'' ! n]
      else show_nat (n div 10) @ [''0123456789'' ! (n mod 10)])"

declare show_nat.simps [simp del]

definition show_int :: "int \<Rightarrow> string" where
  "show_int n = (if n < 0 then CHR ''-'' # show_nat (nat (- n)) else show_nat (nat n))"

fun join :: "string \<Rightarrow> string list \<Rightarrow> string" where
  "join sep [] = []"
| "join sep [x] = x"
| "join sep (x # y # zs) = x @ sep @ join sep (y # zs)"

text \<open>\<^verbatim>\<open>v[i]\<close> for an index \<open>i\<close>.\<close>

fun getIndex :: "jsval \<Rightarrow> nat \<Rightarrow> error + jsval" where
  "getIndex JUndefined i = Inl TypeError"
| "getIndex JNull i = Inl TypeError"
| "getIndex (JArr xs) i = Inr (if i < length xs then xs ! i else JUndefined)"
| "getIndex (JStr s) i = Inr (if i < length s then JStr [s ! i] else JUndefined)"
| "getIndex (JObj fs) i = Inr (lookup_property fs (show_nat i))"
| "getIndex v i = Inr JUndefined"

text \<open>
  \<^verbatim>\<open>v.name = x\<close> in strict-mode code (a class body): a \<^verbatim>\<open>TypeError\<close> on \<^verbatim>\<open>undefined\<close>,
  \<^verbatim>\<open>null\<close> and the primitive values. An array accepts the property; the model's arrays
  hold their elements only, and nothing in the adapter reads such a property back.
\<close>

fun setProp :: "jsval \<Rightarrow> string \<Rightarrow> jsval \<Rightarrow> error + jsval" where
  "setProp (JObj fs) name x = Inr (JObj (AList.update name x fs))"
| "setProp (JArr xs) name x = Inr (JArr xs)"
| "setProp v name x = Inl TypeError"

text \<open>The condition of \<^verbatim>\<open>if (v)\<close> and of \<^verbatim>\<open>v ? a : b\<close>.\<close>

fun truthy :: "jsval \<Rightarrow> bool" where
  "truthy JUndefined = False"
| "truthy JNull = False"
| "truthy (JBool b) = b"
| "truthy (JNum n) = (n \<noteq> 0)"
| "truthy (JStr s) = (s \<noteq> [])"
| "truthy (JArr xs) = True"
| "truthy (JObj fs) = True"

text \<open>
  What a template literal \<^verbatim>\<open>`${v}`\<close> inserts. A number up to
  \<^verbatim>\<open>Number.MAX_SAFE_INTEGER\<close> in magnitude prints as its decimal digits. Beyond that
  the language prints the shortest digits that identify the number, in exponent form
  from \<^verbatim>\<open>1e21\<close> on; that conversion is the language's own and is taken as the
  parameter \<open>numberToString\<close>.
\<close>

definition MAX_SAFE_INTEGER :: int where
  "MAX_SAFE_INTEGER = 9007199254740991"

fun js_toString :: "(int \<Rightarrow> string) \<Rightarrow> jsval \<Rightarrow> string" where
  "js_toString numberToString JUndefined = ''undefined''"
| "js_toString numberToString JNull = ''null''"
| "js_toString numberToString (JBool b) = (if b then ''true'' else ''false'')"
| "js_toString numberToString (JNum n) =
     (if \<bar>n\<bar> \<le> MAX_SAFE_INTEGER then show_int n else numberToString n)"
| "js_toString numberToString (JStr s) = s"
| "js_toString numberToString (JArr xs) =
     join '','' (map (\<lambda>x. case x of JUndefined \<Rightarrow> [] | JNull \<Rightarrow> []
                              | _ \<Rightarrow> js_toString numberToString x) xs)"
| "js_toString numberToString (JObj fs) = ''[object Object]''"

text \<open>
  The number a value converts to in a comparison (\<open>None\<close> is NaN). The conversion of a
  string is the language's own and is taken as the parameter \<open>stringToNumber\<close>; an
  array or object converts through its string.
\<close>

fun js_toNumber :: "(string \<Rightarrow> int option) \<Rightarrow> (int \<Rightarrow> string) \<Rightarrow> jsval \<Rightarrow> int option" where
  "js_toNumber stringToNumber numberToString JUndefined = None"
| "js_toNumber stringToNumber numberToString JNull = Some 0"
| "js_toNumber stringToNumber numberToString (JBool b) = Some (if b then 1 else 0)"
| "js_toNumber stringToNumber numberToString (JNum n) = Some n"
| "js_toNumber stringToNumber numberToString v = stringToNumber (js_toString numberToString v)"

text \<open>\<^verbatim>\<open>v > n\<close> for a number \<open>n\<close>: false when \<open>v\<close> converts to NaN.\<close>

definition js_gt :: "(string \<Rightarrow> int option) \<Rightarrow> (int \<Rightarrow> string) \<Rightarrow> jsval \<Rightarrow> int \<Rightarrow> bool" where
  "js_gt stringToNumber numberToString v n =
     (case js_toNumber stringToNumber numberToString v of None \<Rightarrow> False | Some m \<Rightarrow> m > n)"

text \<open>What \<^verbatim>\<open>for (const x of v)\<close> iterates over: the elements of an array, the
  characters of a string; a \<^verbatim>\<open>TypeError\<close> for a value that is not iterable.\<close>

fun iterate :: "jsval \<Rightarrow> error + jsval list" where
  "iterate (JArr xs) = Inr xs"
| "iterate (JStr s) = Inr (map (\<lambda>c. JStr [c]) s)"
| "iterate v = Inl TypeError"

text \<open>The values on which a property read throws.\<close>

definition nullish :: "jsval \<Rightarrow> bool" where
  "nullish v = (v = JUndefined \<or> v = JNull)"

text \<open>The value of \<^verbatim>\<open>v.name\<close> where the read does not throw.\<close>

definition field :: "jsval \<Rightarrow> string \<Rightarrow> jsval" where
  "field v name = (case getProp v name of Inl e \<Rightarrow> JUndefined | Inr x \<Rightarrow> x)"

text \<open>Whether a value is a string, and the string it then is.\<close>

definition is_string :: "jsval \<Rightarrow> bool" where
  "is_string v = (case v of JStr s \<Rightarrow> True | _ \<Rightarrow> False)"

definition string_of :: "jsval \<Rightarrow> string" where
  "string_of v = (case v of JStr s \<Rightarrow> s | _ \<Rightarrow> [])"

section \<open>The canonical shapes and the normalization functions\<close>

text \<open>
  The utility functions of \<^verbatim>\<open>@vssue/utils\<close>, the HTTP transport and the browser are
  outside the adapter; the model takes them as the fields of one record of parameters.
  They are total functions of their arguments. The transport answers a request with a
  response or with a thrown error, and the answer may depend on everything exchanged
  before (\<open>transport E history request\<close>), so any server is covered.
\<close>

datatype verb = GET | POST | PATCH | DELETE

record axios_instance =
  cfg_baseURL :: string
  cfg_headers :: "(string \<times> string) list"

record request =
  client :: axios_instance
  verb :: verb
  url :: string
  body :: "jsval option"
  headers :: "(string \<times> string) list"
  params :: "(string \<times> jsval) list"

type_synonym reply = "error + response"

type_synonym exchange = "request \<times> reply"

record window =
  href :: string
  search :: string
  hash :: string

record externals =
  concatURL :: "string \<Rightarrow> string \<Rightarrow> string"
  buildURL :: "string \<Rightarrow> (string \<times> jsval) list \<Rightarrow> string"
  buildQuery :: "(string \<times> jsval) list \<Rightarrow> string"
  getCleanURL :: "string \<Rightarrow> string"
  parseQuery :: "string \<Rightarrow> (string \<times> jsval) list"
  stringToNumber :: "string \<Rightarrow> int option"
  numberToString :: "int \<Rightarrow> string"
  transport :: "exchange list \<Rightarrow> request \<Rightarrow> reply"
  replaceState :: "string \<Rightarrow> window \<Rightarrow> window"

record User =
  username :: jsval
  avatar :: jsval
  homepage :: string

record Issue =
  issue_id :: jsval
  issue_title :: jsval
  issue_content :: jsval
  issue_link :: string

record Comment =
  comment_id :: jsval
  content :: jsval
  contentRaw :: jsval
  author :: User
  createdAt :: jsval
  updatedAt :: jsval
  reactions :: jsval

text \<open>
  \<^verbatim>\<open>concatURL(baseURL, path)\<close> of \<^verbatim>\<open>@vssue/utils\<close> is declared on two strings, and
  on strings it is the parameter \<open>concatURL\<close>. \<open>normalizeUser\<close> passes it
  \<^verbatim>\<open>user.login\<close>, which is typed \<^verbatim>\<open>any\<close>: the function calls the string method
  \<^verbatim>\<open>replace\<close> on its path, which a value that is not a string does not have, and the
  call throws a \<^verbatim>\<open>TypeError\<close>.
\<close>

definition concatURL_any :: "externals \<Rightarrow> string \<Rightarrow> jsval \<Rightarrow> error + string" where
  "concatURL_any E baseURL' path' =
     (case path' of JStr s \<Rightarrow> Inr (concatURL E baseURL' s) | _ \<Rightarrow> Inl TypeError)"

definition normalizeUser :: "externals \<Rightarrow> jsval \<Rightarrow> string \<Rightarrow> error + User" where
  "normalizeUser E user baseURL' =
     andThen (getProp user ''login'') (\<lambda>login.
     andThen (getProp user ''avatar_url'') (\<lambda>avatar_url.
     andThen (concatURL_any E baseURL' login) (\<lambda>homepage'.
       Inr \<lparr>username = login, avatar = avatar_url, homepage = homepage'\<rparr>)))"

definition normalizeIssue :: "externals \<Rightarrow> jsval \<Rightarrow> string \<Rightarrow> string \<Rightarrow> string \<Rightarrow> error + Issue" where
  "normalizeIssue E issue baseURL' owner' repo' =
     andThen (getProp issue ''number'') (\<lambda>number.
     andThen (getProp issue ''title'') (\<lambda>title.
     andThen (getProp issue ''body'') (\<lambda>body'.
       Inr \<lparr>issue_id = number, issue_title = title, issue_content = body',
            issue_link = concatURL E baseURL'
              (owner' @ ''/'' @ repo' @ ''/issues/'' @ js_toString (numberToString E) number)\<rparr>)))"

definition normalizeComment :: "externals \<Rightarrow> jsval \<Rightarrow> string \<Rightarrow> error + Comment" where
  "normalizeComment E comment baseURL' =
     andThen (getProp comment ''id'') (\<lambda>id'.
     andThen (getProp comment ''body'') (\<lambda>body'.
     andThen (getProp comment ''user'') (\<lambda>user.
     andThen (normalizeUser E user baseURL') (\<lambda>author'.
     andThen (getProp comment ''created_at'') (\<lambda>created_at.
     andThen (getProp comment ''updated_at'') (\<lambda>updated_at.
     andThen (getProp comment ''reactions'') (\<lambda>reactions'.
       Inr \<lparr>comment_id = id', content = body', contentRaw = body', author = author',
            createdAt = created_at, updatedAt = updated_at, reactions = reactions'\<rparr>)))))))"

section \<open>The adapter\<close>

datatype proxy = ProxyString string | ProxyFunction "string \<Rightarrow> string"

text \<open>The fields of a \<^verbatim>\<open>GiteaV1\<close> instance; \<open>http\<close> is \<^verbatim>\<open>$http\<close>, the client that the
  constructor creates.\<close>

record GiteaV1 =
  baseURL :: string
  owner :: string
  repo :: string
  labels :: "string list"
  clientId :: string
  clientSecret :: string
  state :: string
  proxy :: proxy
  http :: axios_instance

record options =
  opt_baseURL :: "string option"
  opt_owner :: string
  opt_repo :: string
  opt_labels :: "string list"
  opt_clientId :: string
  opt_clientSecret :: "string option"
  opt_state :: string
  opt_proxy :: "proxy option"

definition GiteaV1_new :: "externals \<Rightarrow> options \<Rightarrow> error + GiteaV1" where
  "GiteaV1_new E opts =
     (let baseURL' = (case opt_baseURL opts of None \<Rightarrow> ''https://try.gitea.io'' | Some b \<Rightarrow> b)
      in case (opt_clientSecret opts, opt_proxy opts) of
           (Some clientSecret', Some proxy') \<Rightarrow>
             Inr \<lparr>baseURL = baseURL', owner = opt_owner opts, repo = opt_repo opts,
                  labels = opt_labels opts, clientId = opt_clientId opts,
                  clientSecret = clientSecret', state = opt_state opts, proxy = proxy',
                  http = \<lparr>cfg_baseURL = concatURL E baseURL' ''api/v1'',
                           cfg_headers = [(''Accept'', ''application/json'')]\<rparr>\<rparr>
         | _ \<Rightarrow> Inl (Error ''clientSecret and proxy is required for Gitea V1''))"

text \<open>
  An operation runs in a world: the instance (\<^verbatim>\<open>this\<close>), the browser window, the clock
  that \<^verbatim>\<open>Date.now()\<close> reads, and the exchanges with the transport so far. It returns
  its result, an error (the promise rejects) or a value (it resolves), and the world
  after it.
\<close>

record world =
  this :: GiteaV1
  window :: window
  now :: int
  trace :: "exchange list"

text \<open>One request through \<^verbatim>\<open>this.$http\<close>: the transport's answer, recorded.\<close>

definition send :: "externals \<Rightarrow> request \<Rightarrow> world \<Rightarrow> reply \<times> world" where
  "send E req w =
     (let r = transport E (trace w) req
      in (r, w\<lparr>trace := trace w @ [(req, r)]\<rparr>))"

record platform_meta =
  reactable :: bool
  sortable :: bool

record platform_info =
  platform_name :: string
  platform_link :: string
  version :: string
  meta :: platform_meta

definition platform :: "world \<Rightarrow> platform_info \<times> world" where
  "platform w =
     (\<lparr>platform_name = ''Gitea'', platform_link = baseURL (this w), version = [],
       meta = \<lparr>reactable = False, sortable = False\<rparr>\<rparr>, w)"

definition apiURL :: "externals \<Rightarrow> GiteaV1 \<Rightarrow> string \<Rightarrow> string" where
  "apiURL E g u =
     (case proxy g of
        ProxyFunction f \<Rightarrow> f (concatURL E (baseURL g) (''api/v1/'' @ u))
      | ProxyString _ \<Rightarrow> u)"

text \<open>The header \<^verbatim>\<open>{ 'Authorization': `bearer ${accessToken}` }\<close>, and the
  \<^verbatim>\<open>options.headers\<close> of the operations that set it only \<^verbatim>\<open>if (accessToken)\<close>.\<close>

definition bearer :: "externals \<Rightarrow> jsval \<Rightarrow> (string \<times> string) list" where
  "bearer E accessToken = [(''Authorization'', ''bearer '' @ js_toString (numberToString E) accessToken)]"

definition options_headers :: "externals \<Rightarrow> jsval \<Rightarrow> (string \<times> string) list" where
  "options_headers E accessToken = (if truthy accessToken then bearer E accessToken else [])"

subsection \<open>Authorization\<close>

text \<open>The request of \<^verbatim>\<open>getAccessToken\<close>: the arguments of its \<^verbatim>\<open>this.$http.post\<close>.\<close>

definition getAccessToken_request :: "externals \<Rightarrow> jsval \<Rightarrow> world \<Rightarrow> request" where
  "getAccessToken_request E code w =
     (let originalURL = concatURL E (baseURL (this w)) ''login/oauth/access_token'';
          proxyURL = (case proxy (this w) of
                        ProxyFunction f \<Rightarrow> f originalURL
                      | ProxyString s \<Rightarrow> s)
      in \<lparr>client = http (this w), verb = POST, url = proxyURL,
          body = Some (JStr (buildQuery E
            [(''client_id'', JStr (clientId (this w))),
             (''client_secret'', JStr (clientSecret (this w))),
             (''code'', code),
             (''grant_type'', JStr ''authorization_code''),
             (''redirect_uri'', JStr (href (window w)))])),
          headers = [(''Content-Type'', ''application/x-www-form-urlencoded'')],
          params = []\<rparr>)"

definition getAccessToken :: "externals \<Rightarrow> jsval \<Rightarrow> world \<Rightarrow> (error + jsval) \<times> world" where
  "getAccessToken E code w =
     (let (r, w') = send E (getAccessToken_request E code w) w
      in case r of
           Inl e \<Rightarrow> (Inl e, w')
         | Inr res \<Rightarrow> (getProp (data res) ''access_token'', w'))"

definition handleAuth :: "externals \<Rightarrow> world \<Rightarrow> (error + jsval) \<times> world" where
  "handleAuth E w =
     (let query = parseQuery E (search (window w))
      in if truthy (lookup_property query ''code'') then
           if lookup_property query ''state'' \<noteq> JStr (state (this w)) then (Inr JNull, w)
           else
             let code = lookup_property query ''code'';
                 query = AList.delete ''state'' (AList.delete ''code'' query);
                 replaceURL = buildURL E (getCleanURL E (href (window w))) query @ hash (window w);
                 w = w\<lparr>window := replaceState E replaceURL (window w)\<rparr>
             in getAccessToken E code w
         else (Inr JNull, w))"

subsection \<open>User and issue\<close>

definition getUser_request :: "externals \<Rightarrow> jsval \<Rightarrow> world \<Rightarrow> request" where
  "getUser_request E accessToken w =
     \<lparr>client = http (this w), verb = GET, url = apiURL E (this w) ''user'',
      body = None, headers = bearer E accessToken, params = []\<rparr>"

definition getUser :: "externals \<Rightarrow> jsval \<Rightarrow> world \<Rightarrow> (error + User) \<times> world" where
  "getUser E accessToken w =
     (let (r, w') = send E (getUser_request E accessToken w) w
      in case r of
           Inl e \<Rightarrow> (Inl e, w')
         | Inr res \<Rightarrow> (normalizeUser E (data res) (baseURL (this w)), w'))"

text \<open>The \<^verbatim>\<open>catch\<close> clause of \<^verbatim>\<open>getIssue\<close>: \<^verbatim>\<open>e.response && e.response.status === 404\<close>.\<close>

fun is404 :: "error \<Rightarrow> bool" where
  "is404 (AxiosError (Some res)) = (status res = 404)"
| "is404 e = False"

text \<open>The two requests of \<^verbatim>\<open>getIssue\<close>: for one issue by its id, and for the issues
  that match a title.\<close>

definition getIssue_request_id :: "externals \<Rightarrow> jsval \<Rightarrow> jsval \<Rightarrow> world \<Rightarrow> request" where
  "getIssue_request_id E accessToken issueId w =
     \<lparr>client = http (this w), verb = GET,
      url = apiURL E (this w)
        (''repos/'' @ owner (this w) @ ''/'' @ repo (this w) @ ''/issues/'' @ js_toString (numberToString E) issueId),
      body = None, headers = options_headers E accessToken,
      params = [(''timestamp'', JNum (now w))]\<rparr>"

definition getIssue_request_title :: "externals \<Rightarrow> jsval \<Rightarrow> jsval \<Rightarrow> world \<Rightarrow> request" where
  "getIssue_request_title E accessToken issueTitle w =
     \<lparr>client = http (this w), verb = GET,
      url = apiURL E (this w) (''repos/'' @ owner (this w) @ ''/'' @ repo (this w) @ ''/issues''),
      body = None, headers = options_headers E accessToken,
      params = [(''labels'', JStr (join '','' (labels (this w)))),
                (''q'', issueTitle),
                (''timestamp'', JNum (now w))]\<rparr>"

definition getIssue ::
  "externals \<Rightarrow> jsval \<Rightarrow> jsval \<Rightarrow> jsval \<Rightarrow> world \<Rightarrow> (error + Issue option) \<times> world" where
  "getIssue E accessToken issueId issueTitle w =
     (if truthy issueId then
        let (r, w') = send E (getIssue_request_id E accessToken issueId w) w;
            attempt = andThen r (\<lambda>res.
              normalizeIssue E (data res) (baseURL (this w)) (owner (this w)) (repo (this w)))
        in case attempt of
             Inr issue \<Rightarrow> (Inr (Some issue), w')
           | Inl e \<Rightarrow> if is404 e then (Inr None, w') else (Inl e, w')
      else
        let (r, w') = send E (getIssue_request_title E accessToken issueTitle w) w
        in case r of
             Inl e \<Rightarrow> (Inl e, w')
           | Inr res \<Rightarrow>
               (andThen (getProp (data res) ''size'') (\<lambda>size'.
                  if js_gt (stringToNumber E) (numberToString E) size' 0 then
                    andThen (getProp (data res) ''values'') (\<lambda>values.
                    andThen (getIndex values 0) (\<lambda>first.
                    andThen (normalizeIssue E first (baseURL (this w)) (owner (this w)) (repo (this w)))
                      (\<lambda>issue. Inr (Some issue))))
                  else Inr None), w'))"

definition postIssue_request :: "externals \<Rightarrow> jsval \<Rightarrow> string \<Rightarrow> string \<Rightarrow> world \<Rightarrow> request" where
  "postIssue_request E accessToken title content' w =
     \<lparr>client = http (this w), verb = POST,
      url = apiURL E (this w) (''repos/'' @ owner (this w) @ ''/'' @ repo (this w) @ ''/issues''),
      body = Some (JObj [(''body'', JObj
        [(''title'', JStr title), (''body'', JStr content'),
         (''labels'', JArr (map JStr (labels (this w))))])]),
      headers = bearer E accessToken, params = []\<rparr>"

definition postIssue ::
  "externals \<Rightarrow> jsval \<Rightarrow> string \<Rightarrow> string \<Rightarrow> world \<Rightarrow> (error + Issue) \<times> world" where
  "postIssue E accessToken title content' w =
     (let (r, w') = send E (postIssue_request E accessToken title content' w) w
      in case r of
           Inl e \<Rightarrow> (Inl e, w')
         | Inr res \<Rightarrow>
             (normalizeIssue E (data res) (baseURL (this w)) (owner (this w)) (repo (this w)), w'))"

subsection \<open>Markdown\<close>

definition getMarkdownContent_request :: "externals \<Rightarrow> jsval \<Rightarrow> jsval \<Rightarrow> world \<Rightarrow> request" where
  "getMarkdownContent_request E accessToken contentRaw' w =
     \<lparr>client = http (this w), verb = POST, url = apiURL E (this w) ''markdown'',
      body = Some (JObj
        [(''Context'', JStr (owner (this w) @ ''/'' @ repo (this w))),
         (''Mode'', JStr ''gfm''),
         (''Text'', contentRaw'),
         (''Wiki'', JBool False)]),
      headers = options_headers E accessToken, params = []\<rparr>"

definition getMarkdownContent ::
  "externals \<Rightarrow> jsval \<Rightarrow> jsval \<Rightarrow> world \<Rightarrow> (error + jsval) \<times> world" where
  "getMarkdownContent E accessToken contentRaw' w =
     (let (r, w') = send E (getMarkdownContent_request E accessToken contentRaw' w) w
      in case r of
           Inl e \<Rightarrow> (Inl e, w')
         | Inr res \<Rightarrow> (Inr (data res), w'))"

subsection \<open>Comments\<close>

record query =
  query_page :: "int option"
  query_perPage :: "int option"
  query_sort :: "string option"

record Comments =
  count :: int
  page :: int
  perPage :: int
  comments_data :: "Comment list"

text \<open>
  The fan-out of \<^verbatim>\<open>getComments\<close>. Each comment gets an async function that is started
  in the loop and runs up to its first \<^verbatim>\<open>await\<close>: it reads \<^verbatim>\<open>comment.body\<close> (and is
  rejected at once when that throws) and calls \<^verbatim>\<open>getMarkdownContent\<close>, which sends its
  request. The requests therefore leave in the order of the comments, all of them.
\<close>

datatype started = Thrown error | Awaited jsval "error + jsval"

fun getCommentsMeta :: "externals \<Rightarrow> jsval \<Rightarrow> jsval list \<Rightarrow> world \<Rightarrow> started list \<times> world" where
  "getCommentsMeta E accessToken [] w = ([], w)"
| "getCommentsMeta E accessToken (comment # rest) w =
     (case getProp comment ''body'' of
        Inl e \<Rightarrow>
          (let (ms, w') = getCommentsMeta E accessToken rest w
           in (Thrown e # ms, w'))
      | Inr body' \<Rightarrow>
          (let (r, w1) = getMarkdownContent E accessToken body' w;
               (ms, w2) = getCommentsMeta E accessToken rest w1
           in (Awaited comment r # ms, w2)))"

text \<open>When its answer arrives a started function assigns \<^verbatim>\<open>comment.body_html\<close>; the
  outcome is the comment after the assignment, or the error that rejects the promise.\<close>

fun settle :: "started \<Rightarrow> error + jsval" where
  "settle (Thrown e) = Inl e"
| "settle (Awaited comment r) = andThen r (\<lambda>html. setProp comment ''body_html'' html)"

fun thrown :: "started list \<Rightarrow> error list" where
  "thrown [] = []"
| "thrown (Thrown e # ms) = e # thrown ms"
| "thrown (Awaited comment r # ms) = thrown ms"

fun sequence :: "(error + 'a) list \<Rightarrow> error + 'a list" where
  "sequence [] = Inr []"
| "sequence (r # rs) =
     (case r of
        Inl e \<Rightarrow> Inl e
      | Inr x \<Rightarrow> (case sequence rs of Inl e \<Rightarrow> Inl e | Inr xs \<Rightarrow> Inr (x # xs)))"

text \<open>
  \<^verbatim>\<open>await Promise.all(getCommentsMeta)\<close> rejects with the first rejection it sees. A
  promise rejected before any answer arrived comes first, in the order of the comments;
  which of the others comes first depends on when the answers arrive, and the model
  takes the schedule in which they arrive in the order of the requests.
\<close>

definition promiseAll :: "started list \<Rightarrow> error + jsval list" where
  "promiseAll ms = (case thrown ms of e # es \<Rightarrow> Inl e | [] \<Rightarrow> sequence (map settle ms))"

definition getComments_request :: "externals \<Rightarrow> jsval \<Rightarrow> jsval \<Rightarrow> world \<Rightarrow> request" where
  "getComments_request E accessToken issueId w =
     \<lparr>client = http (this w), verb = GET,
      url = apiURL E (this w)
        (''repos/'' @ owner (this w) @ ''/'' @ repo (this w) @ ''/issues/''
           @ js_toString (numberToString E) issueId @ ''/comments''),
      body = None, headers = options_headers E accessToken,
      params = [(''timestamp'', JNum (now w))]\<rparr>"

text \<open>\<^verbatim>\<open>commentsRaw.map(item => normalizeComment(item, this.baseURL))\<close>: only an array
  has \<^verbatim>\<open>map\<close>; the call throws on the first comment that cannot be normalized.\<close>

definition normalizeComments :: "externals \<Rightarrow> jsval \<Rightarrow> jsval list \<Rightarrow> string \<Rightarrow> error + Comment list" where
  "normalizeComments E commentsRaw items baseURL' =
     (case commentsRaw of
        JArr _ \<Rightarrow> sequence (map (\<lambda>item. normalizeComment E item baseURL') items)
      | _ \<Rightarrow> Inl TypeError)"

definition getComments ::
  "externals \<Rightarrow> jsval \<Rightarrow> jsval \<Rightarrow> query option \<Rightarrow> world \<Rightarrow> (error + Comments) \<times> world" where
  "getComments E accessToken issueId query' w =
     (let page' = (case query' of None \<Rightarrow> 1
                   | Some q \<Rightarrow> (case query_page q of None \<Rightarrow> 1 | Some p \<Rightarrow> p));
          perPage' = (case query' of None \<Rightarrow> 10
                      | Some q \<Rightarrow> (case query_perPage q of None \<Rightarrow> 10 | Some p \<Rightarrow> p));
          sort' = (case query' of None \<Rightarrow> ''desc''
                   | Some q \<Rightarrow> (case query_sort q of None \<Rightarrow> ''desc'' | Some s \<Rightarrow> s));
          (r, w1) = send E (getComments_request E accessToken issueId w) w
      in case r of
           Inl e \<Rightarrow> (Inl e, w1)
         | Inr res \<Rightarrow>
             (let commentsRaw = data res
              in case iterate commentsRaw of
                   Inl e \<Rightarrow> (Inl e, w1)
                 | Inr items \<Rightarrow>
                     (let (ms, w2) = getCommentsMeta E accessToken items w1
                      in case promiseAll ms of
                           Inl e \<Rightarrow> (Inl e, w2)
                         | Inr items' \<Rightarrow>
                             (andThen (normalizeComments E commentsRaw items' (baseURL (this w)))
                                (\<lambda>cs. Inr \<lparr>count = 0, page = 0, perPage = 0, comments_data = cs\<rparr>),
                              w2))))"

definition postComment_request :: "externals \<Rightarrow> jsval \<Rightarrow> jsval \<Rightarrow> string \<Rightarrow> world \<Rightarrow> request" where
  "postComment_request E accessToken issueId content' w =
     \<lparr>client = http (this w), verb = POST,
      url = apiURL E (this w)
        (''repos/'' @ owner (this w) @ ''/'' @ repo (this w) @ ''/issues/''
           @ js_toString (numberToString E) issueId @ ''/comments''),
      body = Some (JObj [(''body'', JStr content')]),
      headers = bearer E accessToken, params = []\<rparr>"

definition postComment ::
  "externals \<Rightarrow> jsval \<Rightarrow> jsval \<Rightarrow> string \<Rightarrow> world \<Rightarrow> (error + Comment) \<times> world" where
  "postComment E accessToken issueId content' w =
     (let (r, w1) = send E (postComment_request E accessToken issueId content' w) w
      in case r of
           Inl e \<Rightarrow> (Inl e, w1)
         | Inr res \<Rightarrow>
             (case getProp (data res) ''body'' of
                Inl e \<Rightarrow> (Inl e, w1)
              | Inr body' \<Rightarrow>
                  (let (m, w2) = getMarkdownContent E accessToken body' w1
                   in case m of
                        Inl e \<Rightarrow> (Inl e, w2)
                      | Inr html \<Rightarrow>
                          (andThen (setProp (data res) ''body_html'' html)
                             (\<lambda>data'. normalizeComment E data' (baseURL (this w))), w2))))"

definition putComment_request ::
  "externals \<Rightarrow> jsval \<Rightarrow> jsval \<Rightarrow> jsval \<Rightarrow> string \<Rightarrow> world \<Rightarrow> request" where
  "putComment_request E accessToken issueId commentId content' w =
     \<lparr>client = http (this w), verb = PATCH,
      url = apiURL E (this w)
        (''repos/'' @ owner (this w) @ ''/'' @ repo (this w) @ ''/issues/''
           @ js_toString (numberToString E) issueId @ ''/comments/'' @ js_toString (numberToString E) commentId),
      body = Some (JObj [(''body'', JStr content')]),
      headers = bearer E accessToken, params = []\<rparr>"

definition putComment ::
  "externals \<Rightarrow> jsval \<Rightarrow> jsval \<Rightarrow> jsval \<Rightarrow> string \<Rightarrow> world \<Rightarrow> (error + Comment) \<times> world" where
  "putComment E accessToken issueId commentId content' w =
     (let (r, w') = send E (putComment_request E accessToken issueId commentId content' w) w
      in case r of
           Inl e \<Rightarrow> (Inl e, w')
         | Inr res \<Rightarrow> (normalizeComment E (data res) (baseURL (this w)), w'))"

definition deleteComment_request :: "externals \<Rightarrow> jsval \<Rightarrow> jsval \<Rightarrow> jsval \<Rightarrow> world \<Rightarrow> request" where
  "deleteComment_request E accessToken issueId commentId w =
     \<lparr>client = http (this w), verb = DELETE,
      url = apiURL E (this w)
        (''repos/'' @ owner (this w) @ ''/'' @ repo (this w) @ ''/issues/''
           @ js_toString (numberToString E) issueId @ ''/comments/'' @ js_toString (numberToString E) commentId),
      body = None, headers = bearer E accessToken, params = []\<rparr>"

definition deleteComment ::
  "externals \<Rightarrow> jsval \<Rightarrow> jsval \<Rightarrow> jsval \<Rightarrow> world \<Rightarrow> (error + bool) \<times> world" where
  "deleteComment E accessToken issueId commentId w =
     (let (r, w') = send E (deleteComment_request E accessToken issueId commentId w) w
      in case r of
           Inl e \<Rightarrow> (Inl e, w')
         | Inr res \<Rightarrow> (Inr (status res = 204), w'))"

definition getCommentReactions ::
  "externals \<Rightarrow> jsval \<Rightarrow> jsval \<Rightarrow> jsval \<Rightarrow> world \<Rightarrow> (error + jsval) \<times> world" where
  "getCommentReactions E accessToken issueId commentId w = (Inl (Error ''501 Not Implemented''), w)"

definition postCommentReaction ::
  "externals \<Rightarrow> jsval \<Rightarrow> jsval \<Rightarrow> jsval \<Rightarrow> jsval \<Rightarrow> world \<Rightarrow> (error + bool) \<times> world" where
  "postCommentReaction E accessToken issueId commentId reaction w =
     (Inl (Error ''501 Not Implemented''), w)"

subsection \<open>What the transport raised during an operation\<close>

text \<open>The errors among the answers of a list of exchanges, oldest first, and the
  errors that the transport raised between two worlds.\<close>

fun raised :: "exchange list \<Rightarrow> error list" where
  "raised [] = []"
| "raised ((req, Inl e) # xs) = e # raised xs"
| "raised ((req, Inr res) # xs) = raised xs"









section \<open>Example worlds\<close>

text \<open>Concrete utility functions, an instance, a page and a few servers, on which the
  theorems below are run.\<close>

text \<open>The utility functions parse the three callback URLs \<^verbatim>\<open>?code=abc&state=xyz\<close>,
  \<^verbatim>\<open>?code=abc&state=bad\<close> and \<^verbatim>\<open>?code=&state=xyz\<close>; the adapter is configured with
  the state \<^verbatim>\<open>xyz\<close> and a proxy function.\<close>

definition example_externals :: "(exchange list \<Rightarrow> request \<Rightarrow> reply) \<Rightarrow> externals" where
  "example_externals answer =
     \<lparr>concatURL = (\<lambda>b p. b @ ''/'' @ p),
      buildURL = (\<lambda>u q. if q = [] then u
                        else u @ ''?'' @ join ''&'' (map (\<lambda>(k, v). k @ ''='' @ js_toString show_int v) q)),
      buildQuery = (\<lambda>q. join ''&'' (map (\<lambda>(k, v). k @ ''='' @ js_toString show_int v) q)),
      getCleanURL = (\<lambda>u. takeWhile (\<lambda>c. c \<noteq> CHR ''?'') u),
      parseQuery = (\<lambda>s. if s = ''?code=abc&state=xyz''
                         then [(''code'', JStr ''abc''), (''state'', JStr ''xyz'')]
                         else if s = ''?code=abc&state=bad''
                         then [(''code'', JStr ''abc''), (''state'', JStr ''bad'')]
                         else if s = ''?code=&state=xyz''
                         then [(''code'', JStr []), (''state'', JStr ''xyz'')]
                         else []),
      stringToNumber = (\<lambda>s. None),
      numberToString = show_int,
      transport = answer,
      replaceState = (\<lambda>u win. win\<lparr>href := u, search := dropWhile (\<lambda>c. c \<noteq> CHR ''?'') u\<rparr>)\<rparr>"

definition example_instance :: GiteaV1 where
  "example_instance =
     \<lparr>baseURL = ''https://try.gitea.io'', owner = ''o'', repo = ''r'', labels = [''Vssue''],
      clientId = ''id'', clientSecret = ''secret'', state = ''xyz'',
      proxy = ProxyFunction (\<lambda>u. ''https://proxy/'' @ u),
      http = \<lparr>cfg_baseURL = ''https://try.gitea.io/api/v1'',
               cfg_headers = [(''Accept'', ''application/json'')]\<rparr>\<rparr>"

definition example_world :: "string \<Rightarrow> world" where
  "example_world search' =
     \<lparr>this = example_instance,
      window = \<lparr>href = ''https://page/'' @ search', search = search', hash = []\<rparr>,
      now = 1000, trace = []\<rparr>"

text \<open>A server that gives a token for the code \<^verbatim>\<open>abc\<close>: it answers the token
  request of the example instance, sent through the proxy with the clean page URL as
  the redirect URI, and refuses every other request.\<close>

definition token_server :: "exchange list \<Rightarrow> request \<Rightarrow> reply" where
  "token_server history req =
     (if verb req = POST
         \<and> url req = ''https://proxy/https://try.gitea.io/login/oauth/access_token''
         \<and> body req = Some (JStr ''client_id=id&client_secret=secret&code=abc&grant_type=authorization_code&redirect_uri=https://page/'')
      then Inr \<lparr>status = 200, data = JObj [(''access_token'', JStr ''t0k'')]\<rparr>
      else Inl (AxiosError (Some \<lparr>status = 400, data = JNull\<rparr>)))"

text \<open>An adapter asked for issue 7 of a server that knows no such issue (404), of one
  that fails (500), and of one that has it.\<close>

definition failing_server :: "int \<Rightarrow> exchange list \<Rightarrow> request \<Rightarrow> reply" where
  "failing_server code history req = Inl (AxiosError (Some \<lparr>status = code, data = JNull\<rparr>))"

definition issue_server :: "exchange list \<Rightarrow> request \<Rightarrow> reply" where
  "issue_server history req =
     Inr \<lparr>status = 200,
          data = JObj [(''number'', JNum 7), (''title'', JStr ''page''), (''body'', JStr ''text'')]\<rparr>"




text \<open>A server with one comment on the issue, whose body is the markdown \<^verbatim>\<open>**hi**\<close>,
  and whose markdown endpoint renders it to HTML.\<close>

definition example_comment :: jsval where
  "example_comment =
     JObj [(''id'', JNum 1), (''body'', JStr ''**hi**''),
           (''user'', JObj [(''login'', JStr ''u''), (''avatar_url'', JStr ''a.png'')]),
           (''created_at'', JStr ''t1''), (''updated_at'', JStr ''t2'')]"

definition comments_server :: "exchange list \<Rightarrow> request \<Rightarrow> reply" where
  "comments_server history req =
     (if verb req = GET then Inr \<lparr>status = 200, data = JArr [example_comment]\<rparr>
      else Inr \<lparr>status = 200, data = JStr ''<p><strong>hi</strong></p>''\<rparr>)"




section \<open>Facts about the JavaScript values\<close>

lemma getProp_field: "getProp v name = (if nullish v then Inl TypeError else Inr (field v name))"
  by (cases v) (simp_all add: nullish_def field_def)

lemma field_JObj: "field (JObj fs) name = lookup_property fs name"
  by (simp add: field_def)



lemma andThen_simps:
  "andThen (Inl e) f = Inl e"
  "andThen (Inr x) f = f x"
  by (simp_all add: andThen_def)

section \<open>Facts about the normalization functions\<close>

lemma concatURL_any_eq:
  "concatURL_any E b v = (if is_string v then Inr (concatURL E b (string_of v)) else Inl TypeError)"
  by (cases v) (simp_all add: concatURL_any_def is_string_def string_of_def)

lemma normalizeUser_eq:
  "normalizeUser E user b =
     (if nullish user \<or> \<not> is_string (field user ''login'') then Inl TypeError
      else Inr \<lparr>username = field user ''login'', avatar = field user ''avatar_url'',
                homepage = concatURL E b (string_of (field user ''login''))\<rparr>)"
  by (simp add: normalizeUser_def getProp_field andThen_simps concatURL_any_eq)

lemma normalizeIssue_eq:
  "normalizeIssue E issue b ow rp =
     (if nullish issue then Inl TypeError
      else Inr \<lparr>issue_id = field issue ''number'', issue_title = field issue ''title'',
                issue_content = field issue ''body'',
                issue_link = concatURL E b
                  (ow @ ''/'' @ rp @ ''/issues/''
                     @ js_toString (numberToString E) (field issue ''number''))\<rparr>)"
  by (simp add: normalizeIssue_def getProp_field andThen_simps)

lemma normalizeComment_eq:
  "normalizeComment E comment b =
     (if nullish comment then Inl TypeError
      else case normalizeUser E (field comment ''user'') b of
             Inl e \<Rightarrow> Inl e
           | Inr user' \<Rightarrow>
               Inr \<lparr>comment_id = field comment ''id'', content = field comment ''body'',
                    contentRaw = field comment ''body'', author = user',
                    createdAt = field comment ''created_at'',
                    updatedAt = field comment ''updated_at'',
                    reactions = field comment ''reactions''\<rparr>)"
  by (simp add: normalizeComment_def getProp_field andThen_simps split: sum.splits)

lemma normalize_errors:
  "normalizeUser E user b = Inl e \<Longrightarrow> e = TypeError"
  "normalizeIssue E issue b ow rp = Inl e \<Longrightarrow> e = TypeError"
  "normalizeComment E comment b = Inl e \<Longrightarrow> e = TypeError"
proof -
  show u: "normalizeUser E user b = Inl e \<Longrightarrow> e = TypeError" for user
    by (simp add: normalizeUser_eq split: if_splits)
  show "normalizeIssue E issue b ow rp = Inl e \<Longrightarrow> e = TypeError"
    by (simp add: normalizeIssue_eq split: if_splits)
  show "normalizeComment E comment b = Inl e \<Longrightarrow> e = TypeError"
    by (auto simp: normalizeComment_eq split: if_splits sum.splits dest: u)
qed




section \<open>Facts about the generator\<close>

lemma length_validChars: "length validChars = 66"
  by (simp add: validChars_def)

lemma clampLength_range: "43 \<le> clampLength n \<and> clampLength n \<le> 128"
  by (simp add: clampLength_def Let_def split: option.splits)

lemma clampLength_value: "clampLength (Some n) = min (max n 43) 128"
  by (simp add: clampLength_def Let_def)

lemma foldl_js_append:
  "foldl (\<lambda>cv i. js_append cv (f i)) acc xs
     = acc @ concat (map (\<lambda>i. js_append [] (f i)) xs)"
proof (induction xs arbitrary: acc)
  case Nil
  show ?case by simp
next
  case (Cons x xs)
  have "js_append acc (f x) = acc @ js_append [] (f x)"
    by (simp add: js_append_def split: option.splits)
  with Cons show ?case by simp
qed

lemma generateCodeVerifier_pieces:
  "generateCodeVerifier True n rnd
     = Some (concat (map (\<lambda>i. js_append [] (js_index validChars (uint i mod clampLength n)))
                       (randomArr rnd (clampLength n))))"
  by (simp add: generateCodeVerifier_def Let_def foldl_js_append)

lemma undefined_in_validChars: "set ''undefined'' \<subseteq> set validChars"
  by (simp add: validChars_def)

lemma js_index_in_set: "js_index s k = Some c \<Longrightarrow> c \<in> set s"
  by (auto simp: js_index_def split: if_splits)

text \<open>Every character of a generated verifier is a character of \<open>validChars\<close>: an
  index in range selects one, and an index out of range appends the text
  \<^verbatim>\<open>undefined\<close>, whose letters all occur in \<open>validChars\<close>.\<close>

lemma generateCodeVerifier_alphabet:
  assumes "generateCodeVerifier wd n rnd = Some s"
  shows "set s \<subseteq> set validChars"
proof -
  from assms have wd: wd
    by (auto simp: generateCodeVerifier_def split: if_splits)
  have piece: "set (js_append [] (js_index validChars k)) \<subseteq> set validChars" for k
  proof (cases "js_index validChars k")
    case None
    then show ?thesis using undefined_in_validChars by (simp add: js_append_def)
  next
    case (Some c)
    then show ?thesis using js_index_in_set [OF Some] by (simp add: js_append_def)
  qed
  from assms wd have "s = concat (map (\<lambda>i. js_append [] (js_index validChars (uint i mod clampLength n)))
                       (randomArr rnd (clampLength n)))"
    by (simp add: generateCodeVerifier_pieces)
  with piece show ?thesis by auto
qed

text \<open>While the clamped length is at most 66 every index is in range, and the verifier
  has exactly that many characters.\<close>

lemma generateCodeVerifier_length_small:
  assumes "clampLength n \<le> 66"
  shows "\<exists>s. generateCodeVerifier True n rnd = Some s \<and> int (length s) = clampLength n"
proof -
  have pos: "0 < clampLength n" using clampLength_range [of n] by simp
  have one: "length (js_append [] (js_index validChars (uint i mod clampLength n))) = 1" for i :: "8 word"
  proof -
    have "0 \<le> uint i mod clampLength n" "uint i mod clampLength n < clampLength n"
      using pos by simp_all
    with assms have "js_index validChars (uint i mod clampLength n)
        = Some (validChars ! nat (uint i mod clampLength n))"
      by (simp add: js_index_def length_validChars)
    then show ?thesis by (simp add: js_append_def)
  qed
  have "length (concat (map (\<lambda>i. js_append [] (js_index validChars (uint i mod clampLength n))) xs))
          = length xs" for xs :: "8 word list"
    by (induction xs) (simp_all add: one)
  from this [of "randomArr rnd (clampLength n)"] pos
  have "int (length (concat (map (\<lambda>i. js_append [] (js_index validChars (uint i mod clampLength n)))
          (randomArr rnd (clampLength n))))) = clampLength n"
    by (simp add: randomArr_def)
  then show ?thesis
    by (simp only: generateCodeVerifier_pieces) simp
qed

text \<open>When every byte is the same and selects an index out of range, the verifier is
  the text \<^verbatim>\<open>undefined\<close> repeated once per byte.\<close>

lemma generateCodeVerifier_constant_out_of_range:
  assumes "js_index validChars (uint b mod clampLength n) = None"
  shows "generateCodeVerifier True n (\<lambda>_. b)
           = Some (concat (replicate (nat (clampLength n)) ''undefined''))"
proof -
  have "map (\<lambda>i. js_append [] (js_index validChars (uint i mod clampLength n)))
          (map (\<lambda>_. b) [0..<k]) = replicate k ''undefined''" for k
    using assms by (induction k) (simp_all add: js_append_def replicate_append_same)
  then show ?thesis
    by (simp add: generateCodeVerifier_pieces randomArr_def)
qed

text \<open>
  Claim C1. Every character of the verifier is drawn from the 66-character alphabet by
  an index \<^verbatim>\<open>i % len\<close> that is within the bounds of \<open>validChars\<close>. The code takes the
  remainder by the clamped length \<open>len\<close> (43 to 128) and not by the length of
  \<open>validChars\<close> (66): for the length argument 67 and the random byte 66 the index is 66,
  one past the last character, the read is \<^verbatim>\<open>undefined\<close>, and the verifier is the text
  \<^verbatim>\<open>undefined\<close> 67 times over instead of 67 characters selected from \<open>validChars\<close>.
\<close>

theorem generateCodeVerifier_index_out_of_bounds:
  "uint (66 :: 8 word) mod clampLength (Some 67) = 66
   \<and> int (length validChars) = 66
   \<and> js_index validChars (uint (66 :: 8 word) mod clampLength (Some 67)) = None
   \<and> generateCodeVerifier True (Some 67) (\<lambda>_. 66)
        = Some (concat (replicate 67 ''undefined''))"
proof -
  have len: "clampLength (Some 67) = 67"
    by (simp add: clampLength_def)
  have idx: "js_index validChars (uint (66 :: 8 word) mod clampLength (Some 67)) = None"
    by (simp add: len js_index_def length_validChars)
  from generateCodeVerifier_constant_out_of_range [OF idx]
  show ?thesis using idx by (simp add: len length_validChars)
qed

text \<open>
  Claim C4. With \<^verbatim>\<open>window\<close> defined the verifier has exactly \<open>min (max n 43) 128\<close>
  characters. For the length argument 128 and the random byte 127 the code reads
  \<open>validChars\<close> at index 127, out of range, for each of the 128 bytes: the result has
  \<open>128 * 9 = 1152\<close> characters, not 128. (Without \<^verbatim>\<open>window\<close> the function returns
  \<^verbatim>\<open>null\<close>, as the claim says.)
\<close>

theorem generateCodeVerifier_length_diverges:
  "min (max (128 :: int) 43) 128 = 128
   \<and> map_option length (generateCodeVerifier True (Some 128) (\<lambda>_. 127)) = Some 1152
   \<and> generateCodeVerifier False (Some 128) (\<lambda>_. 127) = None"
proof -
  have len: "clampLength (Some 128) = 128"
    by (simp add: clampLength_def)
  have idx: "js_index validChars (uint (127 :: 8 word) mod clampLength (Some 128)) = None"
    by (simp add: len js_index_def length_validChars)
  have "length (concat (replicate k ''undefined'')) = k * 9" for k :: nat
    by (induction k) simp_all
  with generateCodeVerifier_constant_out_of_range [OF idx]
  show ?thesis by (simp add: len generateCodeVerifier_def)
qed

section \<open>Facts about the operations\<close>

lemma send_simps:
  "fst (send E req w) = transport E (trace w) req"
  "this (snd (send E req w)) = this w"
  "window (snd (send E req w)) = window w"
  "now (snd (send E req w)) = now w"
  "trace (snd (send E req w)) = trace w @ [(req, transport E (trace w) req)]"
  by (simp_all add: send_def Let_def)

lemma getMarkdownContent_this: "this (snd (getMarkdownContent E tok c w)) = this w"
  by (simp add: getMarkdownContent_def send_def Let_def split: sum.splits)

lemma getAccessToken_this: "this (snd (getAccessToken E code w)) = this w"
  by (simp add: getAccessToken_def send_def Let_def split: sum.splits)

lemma handleAuth_this: "this (snd (handleAuth E w)) = this w"
  by (simp add: handleAuth_def Let_def getAccessToken_this)

lemma getUser_this: "this (snd (getUser E tok w)) = this w"
  by (simp add: getUser_def send_def Let_def split: sum.splits)

lemma getIssue_this: "this (snd (getIssue E tok issueId title w)) = this w"
  by (simp add: getIssue_def send_def Let_def split: sum.splits)

lemma postIssue_this: "this (snd (postIssue E tok title c w)) = this w"
  by (simp add: postIssue_def send_def Let_def split: sum.splits)

lemma getCommentsMeta_this: "this (snd (getCommentsMeta E tok items w)) = this w"
proof (induction items arbitrary: w)
  case Nil
  show ?case by simp
next
  case (Cons comment rest)
  show ?case
  proof (cases "getProp comment ''body''")
    case (Inl e)
    then show ?thesis using Cons [of w] by (simp add: case_prod_beta)
  next
    case (Inr b)
    obtain r w1 where m: "getMarkdownContent E tok b w = (r, w1)"
      by (cases "getMarkdownContent E tok b w")
    have "this w1 = this w"
      using getMarkdownContent_this [of E tok b w] m by simp
    with Inr m Cons [of w1] show ?thesis by (simp add: case_prod_beta)
  qed
qed

lemma getComments_this: "this (snd (getComments E tok issueId q w)) = this w"
  by (simp add: getComments_def Let_def case_prod_beta send_simps getCommentsMeta_this
      split: sum.splits)

lemma postComment_this: "this (snd (postComment E tok issueId c w)) = this w"
  by (simp add: postComment_def Let_def case_prod_beta send_simps getMarkdownContent_this
      split: sum.splits)

lemma putComment_this: "this (snd (putComment E tok issueId commentId c w)) = this w"
  by (simp add: putComment_def send_def Let_def split: sum.splits)

lemma deleteComment_this: "this (snd (deleteComment E tok issueId commentId w)) = this w"
  by (simp add: deleteComment_def send_def Let_def split: sum.splits)

text \<open>
  Claim C7. The adapter is a stateless wrapper: every operation (handleAuth,
  getAccessToken, getUser, getIssue, postIssue, getComments, postComment, putComment,
  deleteComment, getMarkdownContent and the platform getter), for every input, leaves
  the instance unchanged, that is every one of its fields baseURL, owner, repo, labels,
  clientId, clientSecret, state, proxy and \<^verbatim>\<open>$http\<close>. (What an operation does change is
  outside the instance: the exchanges with the transport, and for handleAuth the
  browser's URL.)
\<close>

theorem operations_leave_instance_unchanged:
  "this (snd (handleAuth E w)) = this w
   \<and> this (snd (getAccessToken E code w)) = this w
   \<and> this (snd (getUser E accessToken w)) = this w
   \<and> this (snd (getIssue E accessToken issueId issueTitle w)) = this w
   \<and> this (snd (postIssue E accessToken title content' w)) = this w
   \<and> this (snd (getComments E accessToken issueId query' w)) = this w
   \<and> this (snd (postComment E accessToken issueId content' w)) = this w
   \<and> this (snd (putComment E accessToken issueId commentId content' w)) = this w
   \<and> this (snd (deleteComment E accessToken issueId commentId w)) = this w
   \<and> this (snd (getMarkdownContent E accessToken contentRaw' w)) = this w
   \<and> this (snd (platform w)) = this w"
  by (simp add: handleAuth_this getAccessToken_this getUser_this getIssue_this postIssue_this
      getComments_this postComment_this putComment_this deleteComment_this
      getMarkdownContent_this platform_def)

section \<open>Authorization: the redirect/callback exchange\<close>

lemma lookup_property_delete:
  "lookup_property (AList.delete k fs) name = (if name = k then JUndefined else lookup_property fs name)"
  by (simp add: lookup_property_def delete_conv')

lemma lookup_property_absent: "map_of fs name = None \<Longrightarrow> lookup_property fs name = JUndefined"
  by (simp add: lookup_property_def)

lemma getAccessToken_request_fields:
  "verb (getAccessToken_request E code w) = POST"
  "url (getAccessToken_request E code w)
     = (case proxy (this w) of
          ProxyFunction f \<Rightarrow> f (concatURL E (baseURL (this w)) ''login/oauth/access_token'')
        | ProxyString s \<Rightarrow> s)"
  "body (getAccessToken_request E code w)
     = Some (JStr (buildQuery E
         [(''client_id'', JStr (clientId (this w))),
          (''client_secret'', JStr (clientSecret (this w))),
          (''code'', code),
          (''grant_type'', JStr ''authorization_code''),
          (''redirect_uri'', JStr (href (window w)))]))"
  "headers (getAccessToken_request E code w)
     = [(''Content-Type'', ''application/x-www-form-urlencoded'')]"
  "params (getAccessToken_request E code w) = []"
  "client (getAccessToken_request E code w) = http (this w)"
  by (simp_all add: getAccessToken_request_def Let_def)

lemma getAccessToken_eq:
  "getAccessToken E code w
     = (case transport E (trace w) (getAccessToken_request E code w) of
          Inl e \<Rightarrow> Inl e | Inr res \<Rightarrow> getProp (data res) ''access_token'',
        w\<lparr>trace := trace w @ [(getAccessToken_request E code w,
                    transport E (trace w) (getAccessToken_request E code w))]\<rparr>)"
  by (simp add: getAccessToken_def send_def Let_def split: sum.splits)

text \<open>
  Claim C5, as the code has it. \<open>handleAuth\<close> is the single redirect/callback exchange of
  the authorization-code flow. With \<open>query\<close> the parsed query string of the page and
  \<open>code\<close> the value of its \<^verbatim>\<open>code\<close> parameter: it resolves to \<^verbatim>\<open>null\<close>, leaving the
  world as it was, when the query has no \<^verbatim>\<open>code\<close> parameter, when the value of that
  parameter is falsy (for a string: empty), and when the code is truthy but the \<^verbatim>\<open>state\<close>
  parameter differs from the configured state. When the code is truthy (for a string:
  not empty) and the state matches, the query loses \<^verbatim>\<open>code\<close> and \<^verbatim>\<open>state\<close> and keeps
  every other parameter, the browser URL is replaced by the clean URL built with that
  query (plus the hash), and the code is exchanged through \<open>getAccessToken\<close>: exactly one
  request is sent, a POST to the token URL (through the proxy) whose form-encoded body
  is the query of the client id, the client secret, the code, the grant type
  \<^verbatim>\<open>authorization_code\<close> and the replaced page URL as redirect URI; the result is the
  \<^verbatim>\<open>access_token\<close> of the answer, or the error of the request.
\<close>

theorem handleAuth_exchange:
  "(let query = parseQuery E (search (window w));
        code = lookup_property query ''code'';
        cleaned = AList.delete ''state'' (AList.delete ''code'' query);
        replaceURL = buildURL E (getCleanURL E (href (window w))) cleaned @ hash (window w);
        w1 = w\<lparr>window := replaceState E replaceURL (window w)\<rparr>;
        request = getAccessToken_request E code w1;
        answer = transport E (trace w) request
    in (map_of query ''code'' = None \<longrightarrow> handleAuth E w = (Inr JNull, w))
     \<and> (\<not> truthy code \<longrightarrow> handleAuth E w = (Inr JNull, w))
     \<and> (truthy code \<and> lookup_property query ''state'' \<noteq> JStr (state (this w))
          \<longrightarrow> handleAuth E w = (Inr JNull, w))
     \<and> (truthy code \<and> lookup_property query ''state'' = JStr (state (this w))
          \<longrightarrow> handleAuth E w = getAccessToken E code w1
            \<and> getAccessToken E code w1
                = (case answer of Inl e \<Rightarrow> Inl e | Inr res \<Rightarrow> getProp (data res) ''access_token'',
                   w1\<lparr>trace := trace w @ [(request, answer)]\<rparr>)
            \<and> verb request = POST
            \<and> url request
                = (case proxy (this w) of
                     ProxyFunction f \<Rightarrow> f (concatURL E (baseURL (this w)) ''login/oauth/access_token'')
                   | ProxyString s \<Rightarrow> s)
            \<and> body request
                = Some (JStr (buildQuery E
                    [(''client_id'', JStr (clientId (this w))),
                     (''client_secret'', JStr (clientSecret (this w))),
                     (''code'', code),
                     (''grant_type'', JStr ''authorization_code''),
                     (''redirect_uri'', JStr (href (replaceState E replaceURL (window w))))]))
            \<and> headers request = [(''Content-Type'', ''application/x-www-form-urlencoded'')]
            \<and> params request = []
            \<and> client request = http (this w)
            \<and> lookup_property cleaned ''code'' = JUndefined
            \<and> lookup_property cleaned ''state'' = JUndefined
            \<and> (\<forall>name. name \<noteq> ''code'' \<and> name \<noteq> ''state''
                  \<longrightarrow> lookup_property cleaned name = lookup_property query name)))"
proof -
  have absent: "map_of (parseQuery E (search (window w))) ''code'' = None
      \<Longrightarrow> \<not> truthy (lookup_property (parseQuery E (search (window w))) ''code'')"
    by (simp add: lookup_property_absent)
  show ?thesis
    unfolding Let_def
    using absent
    by (auto simp: handleAuth_def Let_def getAccessToken_eq getAccessToken_request_fields
        lookup_property_delete split: proxy.splits)
qed

text \<open>The claim as it is written fails on the callback URL \<^verbatim>\<open>?code=&state=xyz\<close>: the
  query has a \<^verbatim>\<open>code\<close> parameter and its \<^verbatim>\<open>state\<close> is the configured one, yet
  \<open>handleAuth\<close> resolves to \<^verbatim>\<open>null\<close>, replaces no URL and sends no request.\<close>

theorem handleAuth_empty_code:
  "map_of (parseQuery (example_externals token_server)
             (search (window (example_world ''?code=&state=xyz'')))) ''code'' = Some (JStr [])
   \<and> lookup_property (parseQuery (example_externals token_server)
             (search (window (example_world ''?code=&state=xyz'')))) ''state''
       = JStr (state (this (example_world ''?code=&state=xyz'')))
   \<and> handleAuth (example_externals token_server) (example_world ''?code=&state=xyz'')
       = (Inr JNull, example_world ''?code=&state=xyz'')"
proof -
  have q: "parseQuery (example_externals token_server)
             (search (window (example_world ''?code=&state=xyz'')))
           = [(''code'', JStr []), (''state'', JStr ''xyz'')]"
    by (simp add: example_externals_def example_world_def)
  have st: "state (this (example_world s)) = ''xyz''" for s
    by (simp add: example_world_def example_instance_def)
  show ?thesis
    by (simp add: handleAuth_def Let_def q st lookup_property_def)
qed

theorem handleAuth_exchange_witness:
  "handleAuth (example_externals token_server) (example_world ''?code=abc&state=xyz'')
     = (Inr (JStr ''t0k''),
        \<lparr>this = example_instance,
         window = \<lparr>href = ''https://page/'', search = [], hash = []\<rparr>,
         now = 1000,
         trace = [(getAccessToken_request (example_externals token_server) (JStr ''abc'')
                     ((example_world ''?code=abc&state=xyz'')
                        \<lparr>window := \<lparr>href = ''https://page/'', search = [], hash = []\<rparr>\<rparr>),
                   Inr \<lparr>status = 200, data = JObj [(''access_token'', JStr ''t0k'')]\<rparr>)]\<rparr>)
   \<and> handleAuth (example_externals token_server) (example_world ''?code=abc&state=bad'')
       = (Inr JNull, example_world ''?code=abc&state=bad'')
   \<and> handleAuth (example_externals token_server) (example_world []) = (Inr JNull, example_world [])"
proof -
  let ?E = "example_externals token_server"
  let ?w = "example_world ''?code=abc&state=xyz''"
  let ?win = "\<lparr>href = ''https://page/'', search = [], hash = []\<rparr>"
  have q: "parseQuery ?E (search (window ?w)) = [(''code'', JStr ''abc''), (''state'', JStr ''xyz'')]"
    by (simp add: example_externals_def example_world_def)
  have q2: "parseQuery ?E (search (window (example_world ''?code=abc&state=bad'')))
             = [(''code'', JStr ''abc''), (''state'', JStr ''bad'')]"
    and q3: "parseQuery ?E (search (window (example_world []))) = []"
    by (simp_all add: example_externals_def example_world_def)
  have st: "state (this (example_world s)) = ''xyz''" for s
    by (simp add: example_world_def example_instance_def)
  note T = handleAuth_exchange [of ?E ?w, unfolded Let_def q]
  have pre: "truthy (lookup_property [(''code'', JStr ''abc''), (''state'', JStr ''xyz'')] ''code'')
      \<and> lookup_property [(''code'', JStr ''abc''), (''state'', JStr ''xyz'')] ''state''
          = JStr (state (this ?w))"
    by (simp add: lookup_property_def st)
  note T4 = T [THEN conjunct2, THEN conjunct2, THEN conjunct2, rule_format, OF pre]
  note hA = trans [OF T4 [THEN conjunct1] T4 [THEN conjunct2, THEN conjunct1]]
  have a: "handleAuth ?E ?w
     = (Inr (JStr ''t0k''),
        \<lparr>this = example_instance, window = ?win, now = 1000,
         trace = [(getAccessToken_request ?E (JStr ''abc'') (?w\<lparr>window := ?win\<rparr>),
                   Inr \<lparr>status = 200, data = JObj [(''access_token'', JStr ''t0k'')]\<rparr>)]\<rparr>)"
    unfolding hA
    by (simp add: lookup_property_def example_externals_def example_world_def
        example_instance_def token_server_def getAccessToken_request_def Let_def
        MAX_SAFE_INTEGER_def)
  have c: "handleAuth ?E (example_world ''?code=abc&state=bad'')
      = (Inr JNull, example_world ''?code=abc&state=bad'')"
    using handleAuth_exchange [of ?E "example_world ''?code=abc&state=bad''"]
    unfolding Let_def q2
    by (simp add: lookup_property_def st)
  have d: "handleAuth ?E (example_world []) = (Inr JNull, example_world [])"
    using handleAuth_exchange [of ?E "example_world []"]
    unfolding Let_def q3
    by simp
  from a c d show ?thesis by simp
qed

section \<open>Fetching the issue\<close>

lemma normalizeIssue_not_404: "normalizeIssue E issue b ow rp = Inl e \<Longrightarrow> \<not> is404 e"
  by (auto dest: normalize_errors(2))

text \<open>
  Claim C8. Called with an issueId (a truthy one, the source's test \<^verbatim>\<open>if (issueId)\<close>),
  \<open>getIssue\<close> sends the GET for that issue and: resolves to \<^verbatim>\<open>null\<close> exactly when the
  GET fails with an error whose response has status 404; on a successful response
  resolves to the normalized issue (the outcome of \<open>normalizeIssue\<close> on the response
  body); rethrows every other error of the GET (no response, or a status other than
  404) as it is. In each case the instance is unchanged, as is the window.
\<close>

theorem getIssue_by_id:
  assumes "truthy issueId"
  shows
    "(let answer = transport E (trace w) (getIssue_request_id E accessToken issueId w);
          out = getIssue E accessToken issueId issueTitle w
      in (fst out = Inr None \<longleftrightarrow> (\<exists>e. answer = Inl e \<and> is404 e))
       \<and> (\<forall>res. answer = Inr res \<longrightarrow>
             fst out = map_sum id Some
               (normalizeIssue E (data res) (baseURL (this w)) (owner (this w)) (repo (this w))))
       \<and> (\<forall>e. answer = Inl e \<and> \<not> is404 e \<longrightarrow> fst out = Inl e)
       \<and> this (snd out) = this w
       \<and> window (snd out) = window w
       \<and> trace (snd out) = trace w @ [(getIssue_request_id E accessToken issueId w, answer)])"
proof -
  let ?req = "getIssue_request_id E accessToken issueId w"
  let ?norm = "\<lambda>res. normalizeIssue E (data res) (baseURL (this w)) (owner (this w)) (repo (this w))"
  show ?thesis
  proof (cases "transport E (trace w) ?req")
    case (Inl e)
    with assms show ?thesis
      by (simp add: getIssue_def send_def Let_def andThen_simps)
  next
    case (Inr res)
    show ?thesis
    proof (cases "?norm res")
      case (Inl e)
      with normalizeIssue_not_404 [OF Inl] Inr assms show ?thesis
        by (simp add: getIssue_def send_def Let_def andThen_simps)
    next
      case (Inr issue)
      with \<open>transport E (trace w) ?req = Inr res\<close> assms show ?thesis
        by (simp add: getIssue_def send_def Let_def andThen_simps)
    qed
  qed
qed

theorem getIssue_by_id_witness:
  "truthy (JNum 7)
   \<and> fst (getIssue (example_externals (failing_server 404)) JNull (JNum 7) JUndefined
            (example_world [])) = Inr None
   \<and> fst (getIssue (example_externals (failing_server 500)) JNull (JNum 7) JUndefined
            (example_world []))
       = Inl (AxiosError (Some \<lparr>status = 500, data = JNull\<rparr>))
   \<and> fst (getIssue (example_externals issue_server) JNull (JNum 7) JUndefined (example_world []))
       = Inr (Some \<lparr>issue_id = JNum 7, issue_title = JStr ''page'', issue_content = JStr ''text'',
                    issue_link = ''https://try.gitea.io/o/r/issues/7''\<rparr>)"
proof -
  have t: "truthy (JNum 7)" by simp
  have s404: "transport (example_externals (failing_server c)) h r
        = Inl (AxiosError (Some \<lparr>status = c, data = JNull\<rparr>))" for c h r
    by (simp add: example_externals_def failing_server_def)
  have sok: "transport (example_externals issue_server) h r
        = Inr \<lparr>status = 200,
          data = JObj [(''number'', JNum 7), (''title'', JStr ''page''), (''body'', JStr ''text'')]\<rparr>" for h r
    by (simp add: example_externals_def issue_server_def)
  have a: "fst (getIssue (example_externals (failing_server 404)) JNull (JNum 7) JUndefined
            (example_world [])) = Inr None"
    using getIssue_by_id [OF t, of "example_externals (failing_server 404)" "example_world []" JNull JUndefined]
    by (simp add: Let_def s404)
  have b: "fst (getIssue (example_externals (failing_server 500)) JNull (JNum 7) JUndefined
            (example_world [])) = Inl (AxiosError (Some \<lparr>status = 500, data = JNull\<rparr>))"
    using getIssue_by_id [OF t, of "example_externals (failing_server 500)" "example_world []" JNull JUndefined]
    by (simp add: Let_def s404)
  have n: "normalizeIssue (example_externals issue_server)
             (JObj [(''number'', JNum 7), (''title'', JStr ''page''), (''body'', JStr ''text'')])
             ''https://try.gitea.io'' ''o'' ''r''
           = Inr \<lparr>issue_id = JNum 7, issue_title = JStr ''page'', issue_content = JStr ''text'',
                    issue_link = ''https://try.gitea.io/o/r/issues/7''\<rparr>"
    by (simp add: normalizeIssue_eq nullish_def field_JObj lookup_property_def
        example_externals_def show_int_def show_nat.simps)
  have c: "fst (getIssue (example_externals issue_server) JNull (JNum 7) JUndefined (example_world []))
       = Inr (Some \<lparr>issue_id = JNum 7, issue_title = JStr ''page'', issue_content = JStr ''text'',
                    issue_link = ''https://try.gitea.io/o/r/issues/7''\<rparr>)"
    using getIssue_by_id [OF t, of "example_externals issue_server" "example_world []" JNull JUndefined]
    by (simp add: Let_def sok) (simp add: example_world_def example_instance_def n)
  from t a b c show ?thesis by simp
qed

lemma andThen_Inr_iff: "andThen r f = Inr y \<longleftrightarrow> (\<exists>x. r = Inr x \<and> f x = Inr y)"
  by (cases r) (simp_all add: andThen_def)





section \<open>Fetching the comments\<close>

lemma request_verbs:
  "verb (getComments_request E tok issueId w) = GET"
  "verb (getMarkdownContent_request E tok c w) = POST"
  by (simp_all add: getComments_request_def getMarkdownContent_request_def)

lemma getComments_counts:
  assumes "fst (getComments E tok issueId q w) = Inr c"
  shows "count c = 0 \<and> page c = 0 \<and> perPage c = 0"
  using assms
  by (auto simp: getComments_def Let_def case_prod_beta andThen_Inr_iff split: sum.splits)

text \<open>
  Claim C10. Whatever the query object (any \<^verbatim>\<open>page\<close>, \<^verbatim>\<open>perPage\<close> and \<^verbatim>\<open>sort\<close>, or
  none), the Comments value that \<open>getComments\<close> resolves to has count 0, page 0 and
  perPage 0, and the query has no effect on the requests sent (the exchanges recorded
  in the world after the operation) nor on the result: two calls that differ only in
  the query return the same result and leave the same world. The first request is the
  GET of \<open>getComments_request\<close>, which takes no query.
\<close>

theorem getComments_ignores_query:
  "getComments E accessToken issueId query1 w = getComments E accessToken issueId query2 w
   \<and> (\<forall>c. fst (getComments E accessToken issueId query1 w) = Inr c
          \<longrightarrow> count c = 0 \<and> page c = 0 \<and> perPage c = 0)
   \<and> take (Suc (length (trace w))) (trace (snd (getComments E accessToken issueId query1 w)))
       = trace w @ [(getComments_request E accessToken issueId w,
                     transport E (trace w) (getComments_request E accessToken issueId w))]"
proof -
  have same: "getComments E accessToken issueId query1 w = getComments E accessToken issueId query2 w"
    by (simp add: getComments_def Let_def)
  have ext: "\<exists>new. trace (snd (getCommentsMeta E accessToken items w1)) = trace w1 @ new" for items w1
  proof (induction items arbitrary: w1)
    case Nil
    show ?case by simp
  next
    case (Cons comment rest)
    show ?case
    proof (cases "getProp comment ''body''")
      case (Inl e)
      then show ?thesis using Cons [of w1] by (simp add: case_prod_beta)
    next
      case (Inr b)
      have "trace (snd (getMarkdownContent E accessToken b w1))
          = trace w1 @ [(getMarkdownContent_request E accessToken b w1,
                         transport E (trace w1) (getMarkdownContent_request E accessToken b w1))]"
        by (simp add: getMarkdownContent_def send_def Let_def split: sum.splits)
      with Inr Cons [of "snd (getMarkdownContent E accessToken b w1)"] show ?thesis
        by (auto simp: case_prod_beta)
    qed
  qed
  have first: "take (Suc (length (trace w))) (trace (snd (getComments E accessToken issueId query1 w)))
       = trace w @ [(getComments_request E accessToken issueId w,
                     transport E (trace w) (getComments_request E accessToken issueId w))]"
  proof -
    let ?w1 = "snd (send E (getComments_request E accessToken issueId w) w)"
    have t1: "trace ?w1 = trace w @ [(getComments_request E accessToken issueId w,
                     transport E (trace w) (getComments_request E accessToken issueId w))]"
      by (simp add: send_simps)
    have "trace (snd (getComments E accessToken issueId query1 w)) = trace ?w1
        \<or> (\<exists>items. trace (snd (getComments E accessToken issueId query1 w))
              = trace (snd (getCommentsMeta E accessToken items ?w1)))"
      by (auto simp: getComments_def Let_def case_prod_beta split: sum.splits)
    then obtain new where "trace (snd (getComments E accessToken issueId query1 w)) = trace ?w1 @ new"
      using ext [of _ ?w1] by (metis append_Nil2)
    then show ?thesis by (simp add: t1)
  qed
  from same first getComments_counts show ?thesis by blast
qed

section \<open>Errors of the transport\<close>

lemma raised_append: "raised (xs @ ys) = raised xs @ raised ys"
  by (induction xs rule: raised.induct) simp_all






lemma getMarkdownContent_fst:
  "fst (getMarkdownContent E tok c w)
     = (case transport E (trace w) (getMarkdownContent_request E tok c w) of
          Inl e \<Rightarrow> Inl e | Inr res \<Rightarrow> Inr (data res))"
  by (simp add: getMarkdownContent_def send_def Let_def split: sum.splits)



























section \<open>The comments of an example issue\<close>

lemma example_getMarkdownContent:
  "fst (getMarkdownContent (example_externals comments_server) JNull (JStr ''**hi**'') w)
     = Inr (JStr ''<p><strong>hi</strong></p>'')"
  by (simp add: getMarkdownContent_fst request_verbs example_externals_def comments_server_def)

lemma example_getComments:
  "getComments (example_externals comments_server) JNull (JNum 7) q (example_world [])
     = (Inr \<lparr>count = 0, page = 0, perPage = 0,
             comments_data =
               [\<lparr>comment_id = JNum 1, content = JStr ''**hi**'', contentRaw = JStr ''**hi**'',
                 author = \<lparr>username = JStr ''u'', avatar = JStr ''a.png'',
                           homepage = ''https://try.gitea.io/u''\<rparr>,
                 createdAt = JStr ''t1'', updatedAt = JStr ''t2'', reactions = JUndefined\<rparr>]\<rparr>,
        (example_world [])\<lparr>trace :=
          [(getComments_request (example_externals comments_server) JNull (JNum 7) (example_world []),
            Inr \<lparr>status = 200, data = JArr [example_comment]\<rparr>),
           (getMarkdownContent_request (example_externals comments_server) JNull (JStr ''**hi**'')
              ((example_world [])\<lparr>trace :=
                 [(getComments_request (example_externals comments_server) JNull (JNum 7)
                     (example_world []),
                   Inr \<lparr>status = 200, data = JArr [example_comment]\<rparr>)]\<rparr>),
            Inr \<lparr>status = 200, data = JStr ''<p><strong>hi</strong></p>''\<rparr>)]\<rparr>)"
proof -
  let ?E = "example_externals comments_server"
  let ?w = "example_world []"
  let ?greq = "getComments_request ?E JNull (JNum 7) ?w"
  let ?w1 = "?w\<lparr>trace := [(?greq, Inr \<lparr>status = 200, data = JArr [example_comment]\<rparr>)]\<rparr>"
  let ?mreq = "getMarkdownContent_request ?E JNull (JStr ''**hi**'') ?w1"
  let ?w2 = "?w\<lparr>trace := [(?greq, Inr \<lparr>status = 200, data = JArr [example_comment]\<rparr>),
                          (?mreq, Inr \<lparr>status = 200, data = JStr ''<p><strong>hi</strong></p>''\<rparr>)]\<rparr>"
  have t: "transport ?E h r = comments_server h r" for h r
    by (simp add: example_externals_def)
  have s1: "send ?E ?greq ?w = (Inr \<lparr>status = 200, data = JArr [example_comment]\<rparr>, ?w1)"
    by (simp add: send_def Let_def t comments_server_def request_verbs) (simp add: example_world_def)
  have body: "getProp example_comment ''body'' = Inr (JStr ''**hi**'')"
    by (simp add: example_comment_def lookup_property_def)
  have md: "getMarkdownContent ?E JNull (JStr ''**hi**'') ?w1
      = (Inr (JStr ''<p><strong>hi</strong></p>''), ?w2)"
    by (simp add: getMarkdownContent_def send_def Let_def t comments_server_def request_verbs)
  have meta: "getCommentsMeta ?E JNull [example_comment] ?w1
      = ([Awaited example_comment (Inr (JStr ''<p><strong>hi</strong></p>''))], ?w2)"
    by (simp add: body md)
  have all: "promiseAll [Awaited example_comment (Inr (JStr ''<p><strong>hi</strong></p>''))]
      = Inr [JObj [(''id'', JNum 1), (''body'', JStr ''**hi**''),
           (''user'', JObj [(''login'', JStr ''u''), (''avatar_url'', JStr ''a.png'')]),
           (''created_at'', JStr ''t1''), (''updated_at'', JStr ''t2''),
           (''body_html'', JStr ''<p><strong>hi</strong></p>'')]]"
    by (simp add: promiseAll_def andThen_simps example_comment_def)
  have norm: "normalizeComment ?E (JObj [(''id'', JNum 1), (''body'', JStr ''**hi**''),
           (''user'', JObj [(''login'', JStr ''u''), (''avatar_url'', JStr ''a.png'')]),
           (''created_at'', JStr ''t1''), (''updated_at'', JStr ''t2''),
           (''body_html'', JStr ''<p><strong>hi</strong></p>'')]) ''https://try.gitea.io''
      = Inr \<lparr>comment_id = JNum 1, content = JStr ''**hi**'', contentRaw = JStr ''**hi**'',
                 author = \<lparr>username = JStr ''u'', avatar = JStr ''a.png'',
                           homepage = ''https://try.gitea.io/u''\<rparr>,
                 createdAt = JStr ''t1'', updatedAt = JStr ''t2'', reactions = JUndefined\<rparr>"
    by (simp add: normalizeComment_eq normalizeUser_eq nullish_def is_string_def string_of_def
        field_JObj lookup_property_def example_externals_def)
  have base: "baseURL (this ?w) = ''https://try.gitea.io''"
    by (simp add: example_world_def example_instance_def)
  show ?thesis
    by (simp add: getComments_def Let_def s1 meta all normalizeComments_def norm base andThen_simps
        del: getCommentsMeta.simps)
qed

text \<open>
  Claim C2. \<open>getComments\<close> renders the markdown body of every fetched comment through
  \<open>getMarkdownContent\<close>, and the rendered HTML is the \<^verbatim>\<open>content\<close> of the comment in the
  result. The code does the first and not the second: it stores the HTML in
  \<^verbatim>\<open>comment.body_html\<close>, and \<open>normalizeComment\<close> then takes \<^verbatim>\<open>content\<close> from
  \<^verbatim>\<open>comment.body\<close>. For the example comment the markdown endpoint is asked (the second
  exchange) and answers \<^verbatim>\<open><p><strong>hi</strong></p>\<close>, which is also what
  \<open>getMarkdownContent\<close> resolves to for the body, while the \<^verbatim>\<open>content\<close> returned is the
  raw markdown \<^verbatim>\<open>**hi**\<close>, equal to \<^verbatim>\<open>contentRaw\<close>.
\<close>

theorem getComments_content_not_rendered:
  "fst (getMarkdownContent (example_externals comments_server) JNull (JStr ''**hi**'')
          (example_world []))
     = Inr (JStr ''<p><strong>hi</strong></p>'')
   \<and> map snd (trace (snd (getComments (example_externals comments_server) JNull (JNum 7) None
                             (example_world []))))
     = [Inr \<lparr>status = 200, data = JArr [example_comment]\<rparr>,
        Inr \<lparr>status = 200, data = JStr ''<p><strong>hi</strong></p>''\<rparr>]
   \<and> map_sum id (\<lambda>c. map (\<lambda>x. (contentRaw x, content x)) (comments_data c))
        (fst (getComments (example_externals comments_server) JNull (JNum 7) None
                (example_world [])))
     = Inr [(JStr ''**hi**'', JStr ''**hi**'')]"
  by (simp add: example_getMarkdownContent example_getComments)

theorem getComments_ignores_query_witness:
  "getComments (example_externals comments_server) JNull (JNum 7)
       (Some \<lparr>query_page = Some 3, query_perPage = Some 50, query_sort = Some ''asc''\<rparr>)
       (example_world [])
     = getComments (example_externals comments_server) JNull (JNum 7) None (example_world [])
   \<and> (\<exists>c. fst (getComments (example_externals comments_server) JNull (JNum 7)
                  (Some \<lparr>query_page = Some 3, query_perPage = Some 50, query_sort = Some ''asc''\<rparr>)
                  (example_world [])) = Inr c
           \<and> count c = 0 \<and> page c = 0 \<and> perPage c = 0 \<and> length (comments_data c) = 1)"
proof -
  let ?E = "example_externals comments_server"
  let ?q = "Some \<lparr>query_page = Some 3, query_perPage = Some 50, query_sort = Some ''asc''\<rparr>"
  note T = getComments_ignores_query [where E = ?E and accessToken = JNull and issueId = "JNum 7"
      and ?query1.0 = ?q and ?query2.0 = None and w = "example_world []"]
  from T have same: "getComments ?E JNull (JNum 7) ?q (example_world [])
      = getComments ?E JNull (JNum 7) None (example_world [])"
    by (rule conjunct1)
  obtain c where c: "fst (getComments ?E JNull (JNum 7) ?q (example_world [])) = Inr c"
    "length (comments_data c) = 1"
    by (simp add: example_getComments)
  from T [THEN conjunct2, THEN conjunct1, rule_format, OF c(1)]
  have "count c = 0 \<and> page c = 0 \<and> perPage c = 0" .
  with same c show ?thesis by blast
qed

end
